theory Spec2Isabelle
  imports Complex_Main "HOL-Library.Word" "HOL-Library.Monad_Syntax"
begin

section \<open>Elastic grid network background (script.js, lines 1-156)\<close>

text \<open>
  JavaScript numbers are modelled as mathematical reals: rounding and overflow of IEEE-754
  doubles are not part of this model.  Canvas and window dimensions are the non-negative
  integers the DOM gives them (\<open>unsigned long\<close>), \<open>Date.now()\<close> is an integer number of
  milliseconds.  A \<open>TypeError\<close> raised by reading a property of \<open>null\<close> is the result
  \<open>None\<close> of a function returning \<open>world option\<close>.
\<close>

subsection \<open>Configuration and points\<close>

record Config =
  spacing :: real
  baseSize :: real
  influence :: real
  force :: real
  damping :: real
  tension :: real
  color :: string

definition config :: Config where
  "config = \<lparr> spacing = 40, baseSize = 2, influence = 150, force = 0.6,
              damping = 0.9, tension = 0.05, color = ''99, 102, 241'' \<rparr>"

record Point =
  originX :: real
  originY :: real
  x :: real
  y :: real
  vx :: real
  vy :: real

text \<open>The constructor of class \<open>Point\<close> (lines 22-29).\<close>

definition new_Point :: "real \<Rightarrow> real \<Rightarrow> Point" where
  "new_Point a b = \<lparr> originX = a, originY = b, x = a, y = b, vx = 0, vy = 0 \<rparr>"

definition anchor :: "Point \<Rightarrow> real \<times> real" where
  "anchor p = (originX p, originY p)"

subsection \<open>The page state the renderer reads and writes\<close>

record canvas_element =
  width :: nat
  height :: nat

text \<open>
  The calls made on the 2D context, in order.  A function that draws returns the calls it
  made next to the new state.
\<close>

datatype cmd =
    ClearRect real real real real
  | BeginPath
  | Arc real real real real real
  | FillStyle string
  | Fill
  | MoveTo real real
  | LineTo real real
  | StrokeStyle string
  | LineWidth real
  | Stroke

datatype listener = OnResize | OnMouseMove | OnMouseLeave

datatype context2d = Context2D

record world =
  canvas :: "canvas_element option"
  ctx :: "context2d option"
  points :: "Point list"
  mouseX :: real
  mouseY :: real
  innerWidth :: nat
  innerHeight :: nat
  prefersDark :: bool
  frameRequests :: nat
  listeners :: "listener list"

text \<open>
  The top of the script (lines 5-10): \<open>el\<close> is what \<open>getElementById\<close> finds,
  \<open>has2d\<close> whether \<open>getContext('2d')\<close> yields a context; the optional chaining
  \<open>canvas?.getContext\<close> leaves \<open>ctx\<close> undefined when there is no canvas.
\<close>

definition load_script ::
  "canvas_element option \<Rightarrow> bool \<Rightarrow> nat \<Rightarrow> nat \<Rightarrow> bool \<Rightarrow> world" where
  "load_script el has2d iw ih dark =
     \<lparr> canvas = el,
       ctx = (case el of None \<Rightarrow> None
              | Some _ \<Rightarrow> if has2d then Some Context2D else None),
       points = [], mouseX = - 1000, mouseY = - 1000,
       innerWidth = iw, innerHeight = ih, prefersDark = dark,
       frameRequests = 0, listeners = [] \<rparr>"

subsection \<open>Grid construction (lines 73-97)\<close>

definition initGrid :: "world \<Rightarrow> world option" where
  "initGrid w =
     (if canvas w = None then Some w
      else do {
        c \<leftarrow> canvas w;
        let cols = nat \<lceil>real (width c) / spacing config\<rceil> + 2;
        let rows = nat \<lceil>real (height c) / spacing config\<rceil> + 2;
        let startX = - spacing config;
        let startY = - spacing config;
        Some (w\<lparr>points :=
          [new_Point (startX + real i * spacing config) (startY + real j * spacing config).
             i \<leftarrow> [0..<cols], j \<leftarrow> [0..<rows]]\<rparr>)
      })"

definition resizeCanvas :: "world \<Rightarrow> world option" where
  "resizeCanvas w =
     (if canvas w = None then Some w
      else do {
        c \<leftarrow> canvas w;
        let c1 = c\<lparr>width := innerWidth w\<rparr>;
        let c2 = c1\<lparr>height := innerHeight w\<rparr>;
        initGrid (w\<lparr>canvas := Some c2\<rparr>)
      })"

subsection \<open>The per-frame update of a point (lines 31-63)\<close>

text \<open>
  \<open>Math.atan2\<close> on reals, by the cases of its specification; \<open>atan2 0 0 = 0\<close>.
\<close>

definition atan2 :: "real \<Rightarrow> real \<Rightarrow> real" where
  "atan2 b a =
     (if 0 < a then arctan (b / a)
      else if a < 0 then (if 0 \<le> b then arctan (b / a) + pi else arctan (b / a) - pi)
      else if 0 < b then pi / 2
      else if b < 0 then - (pi / 2)
      else 0)"

definition distance :: "real \<Rightarrow> real \<Rightarrow> Point \<Rightarrow> real" where
  "distance mX mY p =
     (let dx = mX - x p; dy = mY - y p in sqrt (dx * dx + dy * dy))"

text \<open>Lines 33-42: the mouse repulsion, with the cursor at \<open>(mX, mY)\<close>.\<close>

definition repel :: "real \<Rightarrow> real \<Rightarrow> Point \<Rightarrow> Point" where
  "repel mX mY p =
     (let dx = mX - x p;
          dy = mY - y p;
          distance = sqrt (dx * dx + dy * dy)
      in if distance < influence config then
           let angle = atan2 dy dx;
               f = (influence config - distance) / influence config
           in p\<lparr> vx := vx p - cos angle * f * force config,
                 vy := vy p - sin angle * f * force config \<rparr>
         else p)"

text \<open>
  Lines 44-62: drift of the origin, spring, damping and move.  \<open>now\<close> is the value of
  \<open>Date.now()\<close>; \<open>amp\<close> is the drift amplitude, the literal \<open>5\<close> of the source.
\<close>

definition settle :: "real \<Rightarrow> int \<Rightarrow> Point \<Rightarrow> Point" where
  "settle amp now p =
     (let time = real_of_int now * 0.001;
          driftX = sin (time + originY p * 0.05) * amp;
          driftY = cos (time + originX p * 0.05) * amp;
          ox = (originX p + driftX) - x p;
          oy = (originY p + driftY) - y p;
          p1 = p\<lparr> vx := vx p + ox * tension config, vy := vy p + oy * tension config \<rparr>;
          p2 = p1\<lparr> vx := vx p1 * damping config, vy := vy p1 * damping config \<rparr>
      in p2\<lparr> x := x p2 + vx p2, y := y p2 + vy p2 \<rparr>)"

definition update_amp :: "real \<Rightarrow> real \<Rightarrow> real \<Rightarrow> int \<Rightarrow> Point \<Rightarrow> Point" where
  "update_amp amp mX mY now p = settle amp now (repel mX mY p)"

definition update :: "real \<Rightarrow> real \<Rightarrow> int \<Rightarrow> Point \<Rightarrow> Point" where
  "update mX mY now p = update_amp 5 mX mY now p"

text \<open>
  The same update with the operations that can turn finite operands into \<open>NaN\<close> or an
  infinity made partial: a division by zero and a square root of a negative number have no
  value (\<open>None\<close>).  Sums, differences, products, \<open>Math.atan2\<close>, \<open>Math.cos\<close> and
  \<open>Math.sin\<close> of finite numbers are finite numbers (overflow aside, as everywhere in this
  model), so a result \<open>Some q\<close> says that every number stored in \<open>q\<close> is finite and
  well-defined.
\<close>

definition js_div :: "real \<Rightarrow> real \<Rightarrow> real option" where
  "js_div a b = (if b = 0 then None else Some (a / b))"

definition js_sqrt :: "real \<Rightarrow> real option" where
  "js_sqrt a = (if a < 0 then None else Some (sqrt a))"

definition repel_checked :: "real \<Rightarrow> real \<Rightarrow> Point \<Rightarrow> Point option" where
  "repel_checked mX mY p =
     do {
       let dx = mX - x p;
       let dy = mY - y p;
       distance \<leftarrow> js_sqrt (dx * dx + dy * dy);
       if distance < influence config then
         do {
           let angle = atan2 dy dx;
           f \<leftarrow> js_div (influence config - distance) (influence config);
           Some (p\<lparr> vx := vx p - cos angle * f * force config,
                    vy := vy p - sin angle * f * force config \<rparr>)
         }
       else Some p
     }"

definition update_checked :: "real \<Rightarrow> real \<Rightarrow> int \<Rightarrow> Point \<Rightarrow> Point option" where
  "update_checked mX mY now p =
     do {
       q \<leftarrow> repel_checked mX mY p;
       Some (settle 5 now q)
     }"

text \<open>The update applied once per frame, the frames' clock readings given as a list.\<close>

fun run_amp :: "real \<Rightarrow> real \<Rightarrow> real \<Rightarrow> int list \<Rightarrow> Point \<Rightarrow> Point" where
  "run_amp amp mX mY [] p = p"
| "run_amp amp mX mY (t # ts) p = run_amp amp mX mY ts (update_amp amp mX mY t p)"

definition dist_anchor :: "Point \<Rightarrow> real" where
  "dist_anchor p = sqrt ((x p - originX p)\<^sup>2 + (y p - originY p)\<^sup>2)"

text \<open>What the repulsion adds to the velocity, and its Euclidean magnitude.\<close>

definition repulsion :: "real \<Rightarrow> real \<Rightarrow> Point \<Rightarrow> real \<times> real" where
  "repulsion mX mY p = (vx (repel mX mY p) - vx p, vy (repel mX mY p) - vy p)"

definition magnitude :: "real \<times> real \<Rightarrow> real" where
  "magnitude v = sqrt ((fst v)\<^sup>2 + (snd v)\<^sup>2)"

text \<open>
  A quadratic form in displacement and velocity that every update without drift and without
  repulsion multiplies by the damping factor: the measure of how far a point is from rest.
\<close>

definition energy :: "Point \<Rightarrow> real" where
  "energy p =
     9 * ((x p - originX p)\<^sup>2 + (y p - originY p)\<^sup>2)
     + 11 * ((x p - originX p) * vx p + (y p - originY p) * vy p)
     + 180 * ((vx p)\<^sup>2 + (vy p)\<^sup>2)"

subsection \<open>Frame rendering (lines 65-70 and 99-139)\<close>

definition draw :: "string \<Rightarrow> Point \<Rightarrow> cmd list" where
  "draw col p =
     [BeginPath, Arc (x p) (y p) (baseSize config) 0 (pi * 2),
      FillStyle (''rgba('' @ col @ '', 0.5)''), Fill]"

text \<open>Lines 117-131: the body of the second \<open>forEach\<close>, for the point \<open>p\<close>.\<close>

definition outside :: "canvas_element \<Rightarrow> Point \<Rightarrow> bool" where
  "outside c p \<longleftrightarrow>
     x p < - 50 \<or> x p > real (width c) + 50 \<or> y p < - 50 \<or> y p > real (height c) + 50"

definition connect :: "canvas_element \<Rightarrow> Point list \<Rightarrow> Point \<Rightarrow> cmd list" where
  "connect c ps p =
     (if outside c p then []
      else
        (case find (\<lambda>n. \<bar>originX n - (originX p + spacing config)\<bar> < 1
                        \<and> \<bar>originY n - originY p\<bar> < 1) ps of
           None \<Rightarrow> []
         | Some rightNeighbor \<Rightarrow>
             [MoveTo (x p) (y p), LineTo (x rightNeighbor) (y rightNeighbor)])
        @
        (case find (\<lambda>n. \<bar>originX n - originX p\<bar> < 1
                        \<and> \<bar>originY n - (originY p + spacing config)\<bar> < 1) ps of
           None \<Rightarrow> []
         | Some bottomNeighbor \<Rightarrow>
             [MoveTo (x p) (y p), LineTo (x bottomNeighbor) (y bottomNeighbor)]))"

text \<open>
  One frame.  \<open>clock i\<close> is what \<open>Date.now()\<close> returns inside the update of the
  \<open>i\<close>-th point.  The first \<open>forEach\<close> updates and draws point by point; an update
  touches its own point only, so the points are updated first here and drawn in the same order.
\<close>

definition animate :: "(nat \<Rightarrow> int) \<Rightarrow> world \<Rightarrow> (world \<times> cmd list) option" where
  "animate clock w =
     (if ctx w = None \<or> canvas w = None then Some (w, [])
      else do {
        c \<leftarrow> canvas w;
        let isDark = prefersDark w;
        let rgbColor = (if isDark then ''96, 165, 250'' else ''59, 130, 246'');
        let ps = map (\<lambda>(i, p). update (mouseX w) (mouseY w) (clock i) p)
                     (enumerate 0 (points w));
        Some (w\<lparr> points := ps, frameRequests := frameRequests w + 1 \<rparr>,
              [ClearRect 0 0 (real (width c)) (real (height c))]
              @ concat (map (draw rgbColor) ps)
              @ [BeginPath]
              @ concat (map (connect c ps) ps)
              @ [StrokeStyle (''rgba('' @ rgbColor @ '', 0.12)''), LineWidth 1, Stroke])
      })"

text \<open>The line segments of a path: each \<open>moveTo\<close> directly followed by a \<open>lineTo\<close>.\<close>

fun segments :: "cmd list \<Rightarrow> ((real \<times> real) \<times> (real \<times> real)) list" where
  "segments (MoveTo a b # LineTo c d # cs) = ((a, b), (c, d)) # segments cs"
| "segments (c # cs) = segments cs"
| "segments [] = []"

subsection \<open>Start-up and cursor tracking (lines 141-156)\<close>

definition mousemove :: "real \<Rightarrow> real \<Rightarrow> world \<Rightarrow> world" where
  "mousemove clientX clientY w = w\<lparr> mouseX := clientX, mouseY := clientY \<rparr>"

definition mouseleave :: "world \<Rightarrow> world" where
  "mouseleave w = w\<lparr> mouseX := - 1000, mouseY := - 1000 \<rparr>"

definition startup :: "(nat \<Rightarrow> int) \<Rightarrow> world \<Rightarrow> (world \<times> cmd list) option" where
  "startup clock w =
     (if canvas w = None then Some (w, [])
      else do {
        w1 \<leftarrow> resizeCanvas w;
        let w2 = w1\<lparr> listeners := listeners w1 @ [OnResize] \<rparr>;
        (w3, out) \<leftarrow> animate clock w2;
        Some (w3\<lparr> listeners := listeners w3 @ [OnMouseMove, OnMouseLeave] \<rparr>, out)
      })"

section \<open>Contact form (script.js, lines 224-284)\<close>

text \<open>
  A JavaScript string is a sequence of UTF-16 code units.  \<open>is_space\<close> is the class
  \<open>\s\<close> of regular expressions, which is also what \<open>trim\<close> strips: the white space and
  line terminator code points of ECMAScript.
\<close>

type_synonym jsstring = "16 word list"

definition is_space :: "16 word \<Rightarrow> bool" where
  "is_space c \<longleftrightarrow>
     c \<in> {0x9, 0xA, 0xB, 0xC, 0xD, 0x20, 0xA0, 0x1680, 0x2028, 0x2029, 0x202F, 0x205F,
          0x3000, 0xFEFF}
     \<or> (0x2000 \<le> c \<and> c \<le> 0x200A)"

definition trim :: "jsstring \<Rightarrow> jsstring" where
  "trim s = rev (dropWhile is_space (rev (dropWhile is_space s)))"

text \<open>
  The test of \<open>/^[^\s@]+@[^\s@]+\.[^\s@]+$/\<close>: a position \<open>i\<close> of an \<open>@\<close> and a later
  position \<open>j\<close> of a dot such that the three pieces around them are non-empty runs of the
  class \<open>[^\s@]\<close> (\<open>plain\<close>).
\<close>

definition plain :: "jsstring \<Rightarrow> bool" where
  "plain s \<longleftrightarrow> s \<noteq> [] \<and> list_all (\<lambda>c. \<not> is_space c \<and> c \<noteq> 0x40) s"

definition email_regex_test :: "jsstring \<Rightarrow> bool" where
  "email_regex_test e \<longleftrightarrow>
     list_ex (\<lambda>i. list_ex (\<lambda>j.
         i < j \<and> e ! i = 0x40 \<and> e ! j = 0x2E
         \<and> plain (take i e) \<and> plain (take (j - i - 1) (drop (i + 1) e)) \<and> plain (drop (j + 1) e))
       [0..<length e]) [0..<length e]"

record payload =
  from_name :: jsstring
  from_email :: jsstring
  message :: jsstring
  to_name :: jsstring
  reply_to :: jsstring

text \<open>
  The texts written to \<open>#formStatus\<close>: the empty string, "Please fill all fields.",
  "Please enter a valid email address.", "Message sent successfully! I'll get back to you
  soon." and the failure text.
\<close>

datatype status = Blank | FillAllFields | EnterValidEmail | SentSuccessfully | FailedToSend

text \<open>
  What the handler does to the outside: a call of \<open>emailjs.send\<close> with its parameters,
  \<open>form.reset()\<close>, \<open>console.error\<close>.
\<close>

datatype action = Send payload | Reset | ConsoleError

text \<open>
  The form as the handler sees it: the value of each named control (what
  \<open>FormData.get\<close> returns, \<open>None\<close> for \<open>null\<close>), the default values \<open>reset\<close>
  restores, the status element and the submit button.  The elements \<open>#contactForm\<close>,
  \<open>#formStatus\<close> and the submit button are taken to exist.
\<close>

record contact_form =
  controls :: "string \<Rightarrow> jsstring option"
  defaults :: "string \<Rightarrow> jsstring option"
  statusText :: status
  statusColor :: string
  buttonText :: jsstring
  buttonDisabled :: bool

text \<open>\<open>String(fd.get(k) || "").trim()\<close>\<close>

definition field_value :: "contact_form \<Rightarrow> string \<Rightarrow> jsstring" where
  "field_value s k = trim (case controls s k of None \<Rightarrow> [] | Some v \<Rightarrow> v)"

text \<open>
  The submit handler (lines 234-284); \<open>send_ok\<close> tells whether the promise of
  \<open>emailjs.send\<close> is fulfilled.  The button texts are "Sending..." and the saved original,
  the recipient name is "Sujal".
\<close>

definition submit :: "bool \<Rightarrow> contact_form \<Rightarrow> contact_form \<times> action list" where
  "submit send_ok s =
     (let name = field_value s ''name'';
          email = field_value s ''email'';
          message = field_value s ''message'';
          validEmail = email_regex_test email
      in if name = [] \<or> email = [] \<or> message = [] then
           (s\<lparr> statusText := FillAllFields, statusColor := ''#ef4444'' \<rparr>, [])
         else if \<not> validEmail then
           (s\<lparr> statusText := EnterValidEmail, statusColor := ''#ef4444'' \<rparr>, [])
         else
           let originalText = buttonText s;
               s1 = s\<lparr> buttonText := [0x53, 0x65, 0x6E, 0x64, 0x69, 0x6E, 0x67, 0x2E, 0x2E, 0x2E],
                       buttonDisabled := True, statusText := Blank \<rparr>;
               mail = \<lparr> from_name = name, from_email = email, message = message,
                        to_name = [0x53, 0x75, 0x6A, 0x61, 0x6C], reply_to = email \<rparr>
           in if send_ok then
                (s1\<lparr> statusText := SentSuccessfully, statusColor := ''#22c55e'',
                     controls := defaults s1,
                     buttonText := originalText, buttonDisabled := False \<rparr>,
                 [Send mail, Reset])
              else
                (s1\<lparr> statusText := FailedToSend, statusColor := ''#ef4444'',
                     buttonText := originalText, buttonDisabled := False \<rparr>,
                 [Send mail, ConsoleError]))"

section \<open>Concrete pages used as examples\<close>

definition small_page :: world where
  "small_page = load_script (Some \<lparr>width = 100, height = 60\<rparr>) True 100 60 False"

definition no_canvas_page :: world where
  "no_canvas_page = load_script None True 800 600 False"

text \<open>A 100 by 60 canvas whose \<open>getContext('2d')\<close> yields nothing.\<close>

definition no_context_page :: world where
  "no_context_page = load_script (Some \<lparr>width = 100, height = 60\<rparr>) False 100 60 False"

definition at_cursor :: Point where
  "at_cursor = new_Point 40 80"

definition origin_point :: Point where
  "origin_point = new_Point 0 0"

definition moved_page :: world where
  "moved_page = small_page\<lparr> points := [\<lparr>originX = 0, originY = 0, x = 7, y = - 3, vx = 2, vy = - 1\<rparr>],
                            innerWidth := 30, innerHeight := 30 \<rparr>"

text \<open>
  A 1241 by 600 page with the last two points of a grid row (anchors 1240 and 1280), the
  right one pushed 15 to the right; \<open>mesh_left\<close> and \<open>mesh_right\<close> are the two points
  after the update of a frame at clock reading 0 with the cursor away.
\<close>

definition mesh_page :: world where
  "mesh_page = (load_script (Some \<lparr>width = 1241, height = 600\<rparr>) True 1241 600 False)
     \<lparr> points := [\<lparr>originX = 1240, originY = 0, x = 1240, y = 0, vx = 0, vy = 0\<rparr>,
                  \<lparr>originX = 1280, originY = 0, x = 1295, y = 0, vx = 0, vy = 0\<rparr>] \<rparr>"

definition mesh_left :: Point where
  "mesh_left = \<lparr>originX = 1240, originY = 0, x = 1240, y = 9 / 40 * cos 62,
                 vx = 0, vy = 9 / 40 * cos 62\<rparr>"

definition mesh_right :: Point where
  "mesh_right = \<lparr>originX = 1280, originY = 0, x = 51773 / 40, y = 9 / 40 * cos 64,
                  vx = - (27 / 40), vy = 9 / 40 * cos 64\<rparr>"

text \<open>
  A point at rest 800 to the right of its anchor, and its state after \<open>n\<close> frames with the
  cursor away and no drift.
\<close>

definition overshoot_point :: Point where
  "overshoot_point = \<lparr>originX = 0, originY = 0, x = 800, y = 0, vx = 0, vy = 0\<rparr>"

definition idle_frames :: "nat \<Rightarrow> Point" where
  "idle_frames n = run_amp 0 (- 1000) (- 1000) (replicate n 0) overshoot_point"

text \<open>
  A form filled with the name " Ann", the email "a@b.c" and the message "hi", and the same
  form with the email "a@b".
\<close>

definition filled_form :: contact_form where
  "filled_form =
     \<lparr> controls = [''name'' \<mapsto> [0x20, 0x41, 0x6E, 0x6E], ''email'' \<mapsto> [0x61, 0x40, 0x62, 0x2E, 0x63],
                    ''message'' \<mapsto> [0x68, 0x69]],
       defaults = Map.empty, statusText = Blank, statusColor = [],
       buttonText = [0x53, 0x65, 0x6E, 0x64], buttonDisabled = False \<rparr>"

definition undotted_form :: contact_form where
  "undotted_form = filled_form\<lparr> controls := (controls filled_form)(''email'' \<mapsto> [0x61, 0x40, 0x62]) \<rparr>"

section \<open>Properties\<close>

subsection \<open>Grid construction\<close>

lemma grid_as_product:
  "[f i j. i \<leftarrow> xs, j \<leftarrow> ys] = map (\<lambda>(i, j). f i j) (List.product xs ys)"
  by (induction xs) (simp_all add: comp_def)

lemma grid_length:
  "length [f i j. i \<leftarrow> [0..<m], j \<leftarrow> [0..<n]] = m * n"
  by (simp only: grid_as_product length_map length_product length_upt diff_zero)

lemma grid_anchors:
  "set (map anchor [new_Point (s0 + real i * s) (s0 + real j * s). i \<leftarrow> [0..<m], j \<leftarrow> [0..<n]])
   = {(s0 + real i * s, s0 + real j * s) | i j. i < m \<and> j < n}"
  unfolding grid_as_product by (force simp: anchor_def new_Point_def image_iff)

lemma grid_distinct:
  assumes "s \<noteq> 0"
  shows "distinct (map anchor [new_Point (s0 + real i * s) (s0 + real j * s). i \<leftarrow> [0..<m], j \<leftarrow> [0..<n]])"
  unfolding grid_as_product using assms
  by (auto simp: distinct_map distinct_product inj_on_def anchor_def new_Point_def)

lemma grid_at_rest:
  "\<forall>p \<in> set [new_Point (s0 + real i * s) (s0 + real j * s). i \<leftarrow> [0..<m], j \<leftarrow> [0..<n]].
     x p = originX p \<and> y p = originY p \<and> vx p = 0 \<and> vy p = 0"
  unfolding grid_as_product by (auto simp: new_Point_def)

lemma initGrid_Some:
  assumes "canvas w = Some c"
  shows "initGrid w = Some (w\<lparr>points :=
          [new_Point (- spacing config + real i * spacing config)
                     (- spacing config + real j * spacing config).
             i \<leftarrow> [0..<nat \<lceil>real (width c) / spacing config\<rceil> + 2],
             j \<leftarrow> [0..<nat \<lceil>real (height c) / spacing config\<rceil> + 2]]\<rparr>)"
  using assms by (simp add: initGrid_def Let_def)

lemma spacing_nonzero: "spacing config \<noteq> 0"
  by (simp add: config_def)

text \<open>
  C1.  Whatever the canvas width and height, \<open>initGrid\<close> returns normally with a collection
  of exactly \<open>cols * rows\<close> points, \<open>cols = ceil (width / spacing) + 2\<close> and
  \<open>rows = ceil (height / spacing) + 2\<close>; the anchors of the points are exactly the lattice
  points \<open>(- spacing + i * spacing, - spacing + j * spacing)\<close> with \<open>i < cols\<close> and
  \<open>j < rows\<close>, each of them once; every point sits on its anchor with velocity \<open>(0, 0)\<close>.
\<close>

theorem initGrid_lattice:
  assumes "canvas w = Some c"
  shows "\<exists>w'. initGrid w = Some w'
     \<and> length (points w') =
         (nat \<lceil>real (width c) / spacing config\<rceil> + 2) * (nat \<lceil>real (height c) / spacing config\<rceil> + 2)
     \<and> set (map anchor (points w')) =
         {(- spacing config + real i * spacing config, - spacing config + real j * spacing config) | i j.
            i < nat \<lceil>real (width c) / spacing config\<rceil> + 2 \<and>
            j < nat \<lceil>real (height c) / spacing config\<rceil> + 2}
     \<and> distinct (map anchor (points w'))
     \<and> (\<forall>p \<in> set (points w'). x p = originX p \<and> y p = originY p \<and> vx p = 0 \<and> vy p = 0)"
proof -
  let ?ps = "[new_Point (- spacing config + real i * spacing config)
                     (- spacing config + real j * spacing config).
             i \<leftarrow> [0..<nat \<lceil>real (width c) / spacing config\<rceil> + 2],
             j \<leftarrow> [0..<nat \<lceil>real (height c) / spacing config\<rceil> + 2]]"
  have run: "initGrid w = Some (w\<lparr>points := ?ps\<rparr>)"
    by (rule initGrid_Some [OF assms])
  have len: "length ?ps =
      (nat \<lceil>real (width c) / spacing config\<rceil> + 2) * (nat \<lceil>real (height c) / spacing config\<rceil> + 2)"
    by (rule grid_length)
  have anc: "set (map anchor ?ps) =
         {(- spacing config + real i * spacing config, - spacing config + real j * spacing config) | i j.
            i < nat \<lceil>real (width c) / spacing config\<rceil> + 2 \<and>
            j < nat \<lceil>real (height c) / spacing config\<rceil> + 2}"
    by (rule grid_anchors)
  have dis: "distinct (map anchor ?ps)"
    by (rule grid_distinct [OF spacing_nonzero])
  have rest: "\<forall>p \<in> set ?ps. x p = originX p \<and> y p = originY p \<and> vx p = 0 \<and> vy p = 0"
    by (rule grid_at_rest)
  have sel: "points (w\<lparr>points := ?ps\<rparr>) = ?ps"
    by simp
  show ?thesis
    by (rule exI [of _ "w\<lparr>points := ?ps\<rparr>"], unfold sel) (intro conjI run len anc dis rest)
qed

text \<open>A 100 by 60 canvas: 5 columns and 4 rows.\<close>

theorem initGrid_lattice_witness:
  "\<exists>w'. initGrid small_page = Some w' \<and> length (points w') = 20
     \<and> distinct (map anchor (points w'))
     \<and> (\<forall>p \<in> set (points w'). x p = originX p \<and> y p = originY p \<and> vx p = 0 \<and> vy p = 0)"
proof -
  have c: "canvas small_page = Some \<lparr>width = 100, height = 60\<rparr>"
    by (simp add: small_page_def load_script_def)
  have n: "(nat \<lceil>real (width \<lparr>width = 100, height = 60\<rparr>) / spacing config\<rceil> + 2)
         * (nat \<lceil>real (height \<lparr>width = 100, height = 60\<rparr>) / spacing config\<rceil> + 2) = 20"
    by (simp add: config_def)
  from initGrid_lattice [OF c] show ?thesis
    unfolding n by blast
qed

subsection \<open>Rebuild on resize\<close>

lemma resizeCanvas_Some:
  assumes "canvas w = Some c"
  shows "resizeCanvas w =
     initGrid (w\<lparr>canvas := Some \<lparr>width = innerWidth w, height = innerHeight w\<rparr>\<rparr>)"
  using assms by (cases c) (simp add: resizeCanvas_def Let_def)

lemma resizeCanvas_result:
  assumes "canvas w = Some c"
  shows "resizeCanvas w =
     Some (w\<lparr> canvas := Some \<lparr>width = innerWidth w, height = innerHeight w\<rparr>,
              points :=
          [new_Point (- spacing config + real i * spacing config)
                     (- spacing config + real j * spacing config).
             i \<leftarrow> [0..<nat \<lceil>real (innerWidth w) / spacing config\<rceil> + 2],
             j \<leftarrow> [0..<nat \<lceil>real (innerHeight w) / spacing config\<rceil> + 2]] \<rparr>)"
  by (simp add: resizeCanvas_Some [OF assms] initGrid_Some)

lemma initGrid_length:
  assumes "canvas w = Some c"
  shows "\<exists>w'. initGrid w = Some w'
     \<and> length (points w') =
         (nat \<lceil>real (width c) / spacing config\<rceil> + 2) * (nat \<lceil>real (height c) / spacing config\<rceil> + 2)"
proof -
  let ?ps = "[new_Point (- spacing config + real i * spacing config)
                     (- spacing config + real j * spacing config).
             i \<leftarrow> [0..<nat \<lceil>real (width c) / spacing config\<rceil> + 2],
             j \<leftarrow> [0..<nat \<lceil>real (height c) / spacing config\<rceil> + 2]]"
  have run: "initGrid w = Some (w\<lparr>points := ?ps\<rparr>)"
    by (rule initGrid_Some [OF assms])
  have len: "length ?ps =
      (nat \<lceil>real (width c) / spacing config\<rceil> + 2) * (nat \<lceil>real (height c) / spacing config\<rceil> + 2)"
    by (rule grid_length)
  have sel: "points (w\<lparr>points := ?ps\<rparr>) = ?ps"
    by simp
  show ?thesis
    by (rule exI [of _ "w\<lparr>points := ?ps\<rparr>"], unfold sel) (intro conjI run len)
qed

text \<open>
  C7.  On a page with a canvas, \<open>resizeCanvas\<close> (the resize handler, also called once at
  start-up) gives the canvas the size of the window and returns normally with the full
  lattice for that size as the point collection: \<open>cols * rows\<close> points,
  \<open>cols = ceil (innerWidth / spacing) + 2\<close> and \<open>rows = ceil (innerHeight / spacing) + 2\<close>,
  whose anchors are exactly the lattice points, each once.  Every point of it has velocity
  \<open>(0, 0)\<close> and sits on its anchor, whatever the previous points were; the new collection
  is the same for every previous state with the same window size, so nothing of the old
  points is kept.
\<close>

theorem resizeCanvas_rebuilds:
  assumes "canvas w = Some c"
  shows "\<exists>w'. resizeCanvas w = Some w'
     \<and> canvas w' = Some \<lparr>width = innerWidth w, height = innerHeight w\<rparr>
     \<and> length (points w') =
         (nat \<lceil>real (innerWidth w) / spacing config\<rceil> + 2)
         * (nat \<lceil>real (innerHeight w) / spacing config\<rceil> + 2)
     \<and> set (map anchor (points w')) =
         {(- spacing config + real i * spacing config, - spacing config + real j * spacing config) | i j.
            i < nat \<lceil>real (innerWidth w) / spacing config\<rceil> + 2 \<and>
            j < nat \<lceil>real (innerHeight w) / spacing config\<rceil> + 2}
     \<and> distinct (map anchor (points w'))
     \<and> (\<forall>p \<in> set (points w'). vx p = 0 \<and> vy p = 0 \<and> x p = originX p \<and> y p = originY p)
     \<and> (\<forall>u. canvas u \<noteq> None \<and> innerWidth u = innerWidth w \<and> innerHeight u = innerHeight w
            \<longrightarrow> map_option points (resizeCanvas u) = Some (points w'))"
proof -
  let ?ps = "[new_Point (- spacing config + real i * spacing config)
                     (- spacing config + real j * spacing config).
             i \<leftarrow> [0..<nat \<lceil>real (innerWidth w) / spacing config\<rceil> + 2],
             j \<leftarrow> [0..<nat \<lceil>real (innerHeight w) / spacing config\<rceil> + 2]]"
  let ?w' = "w\<lparr> canvas := Some \<lparr>width = innerWidth w, height = innerHeight w\<rparr>, points := ?ps \<rparr>"
  have run: "resizeCanvas w = Some ?w'"
    by (rule resizeCanvas_result [OF assms])
  have cnv: "canvas ?w' = Some \<lparr>width = innerWidth w, height = innerHeight w\<rparr>"
    by simp
  have pts: "points ?w' = ?ps"
    by simp
  have len: "length ?ps =
      (nat \<lceil>real (innerWidth w) / spacing config\<rceil> + 2)
      * (nat \<lceil>real (innerHeight w) / spacing config\<rceil> + 2)"
    by (rule grid_length)
  have anc: "set (map anchor ?ps) =
         {(- spacing config + real i * spacing config, - spacing config + real j * spacing config) | i j.
            i < nat \<lceil>real (innerWidth w) / spacing config\<rceil> + 2 \<and>
            j < nat \<lceil>real (innerHeight w) / spacing config\<rceil> + 2}"
    by (rule grid_anchors)
  have dis: "distinct (map anchor ?ps)"
    by (rule grid_distinct [OF spacing_nonzero])
  have rest: "\<forall>p \<in> set ?ps. vx p = 0 \<and> vy p = 0 \<and> x p = originX p \<and> y p = originY p"
    using grid_at_rest [of "- spacing config" "spacing config"] by blast
  have same: "\<forall>u. canvas u \<noteq> None \<and> innerWidth u = innerWidth w \<and> innerHeight u = innerHeight w
            \<longrightarrow> map_option points (resizeCanvas u) = Some ?ps"
  proof (intro allI impI)
    fix u :: world
    assume u: "canvas u \<noteq> None \<and> innerWidth u = innerWidth w \<and> innerHeight u = innerHeight w"
    then obtain d where "canvas u = Some d" by blast
    from resizeCanvas_result [OF this] u show "map_option points (resizeCanvas u) = Some ?ps"
      by simp
  qed
  show ?thesis
    by (rule exI [of _ ?w'], unfold pts) (intro conjI run cnv len anc dis rest same)
qed

text \<open>
  A page whose only point is displaced and moving, resized to 30 by 30: nine points, all at
  rest.
\<close>

theorem resizeCanvas_rebuilds_witness:
  "\<exists>w'. resizeCanvas moved_page = Some w'
     \<and> canvas w' = Some \<lparr>width = 30, height = 30\<rparr>
     \<and> length (points w') = 9
     \<and> distinct (map anchor (points w'))
     \<and> (\<forall>p \<in> set (points w'). vx p = 0 \<and> vy p = 0 \<and> x p = originX p \<and> y p = originY p)
     \<and> map_option points (resizeCanvas (moved_page\<lparr>points := []\<rparr>)) = Some (points w')"
proof -
  have c: "canvas moved_page = Some \<lparr>width = 100, height = 60\<rparr>"
    by (simp add: moved_page_def small_page_def load_script_def)
  have i: "innerWidth moved_page = 30" "innerHeight moved_page = 30"
    by (simp_all add: moved_page_def)
  have n: "(nat \<lceil>real (30::nat) / spacing config\<rceil> + 2) * (nat \<lceil>real (30::nat) / spacing config\<rceil> + 2) = 9"
    by (simp add: config_def)
  have u: "canvas (moved_page\<lparr>points := []\<rparr>) \<noteq> None
      \<and> innerWidth (moved_page\<lparr>points := []\<rparr>) = innerWidth moved_page
      \<and> innerHeight (moved_page\<lparr>points := []\<rparr>) = innerHeight moved_page"
    by (simp add: c)
  from resizeCanvas_rebuilds [OF c] u show ?thesis
    unfolding i n by blast
qed

subsection \<open>Rendering surface unavailable\<close>

lemma no_context_no_frame:
  "ctx w = None \<Longrightarrow> animate clock w = Some (w, [])"
  by (simp add: animate_def)

lemma startup_no_context:
  assumes "canvas w = Some c" and "ctx w = None" and "resizeCanvas w = Some w'"
  shows "startup clock w =
     Some (w'\<lparr> listeners := listeners w @ [OnResize, OnMouseMove, OnMouseLeave] \<rparr>, [])"
proof -
  have "w' = w\<lparr> canvas := canvas w', points := points w' \<rparr>"
    using assms(3) unfolding resizeCanvas_result [OF assms(1)] by auto
  then have k: "ctx w' = ctx w" "listeners w' = listeners w"
    by (metis world.select_convs world.surjective world.update_convs(1,3))+
  have "animate clock (w'\<lparr> listeners := listeners w' @ [OnResize] \<rparr>)
      = Some (w'\<lparr> listeners := listeners w' @ [OnResize] \<rparr>, [])"
    by (rule no_context_no_frame) (simp add: k assms(2))
  then show ?thesis
    using assms(1) by (simp add: startup_def assms(3) k)
qed

lemma resizeCanvas_length:
  assumes "canvas w = Some c"
  shows "\<exists>w'. resizeCanvas w = Some w'
     \<and> canvas w' = Some \<lparr>width = innerWidth w, height = innerHeight w\<rparr>
     \<and> length (points w') =
         (nat \<lceil>real (innerWidth w) / spacing config\<rceil> + 2)
         * (nat \<lceil>real (innerHeight w) / spacing config\<rceil> + 2)"
proof -
  let ?ps = "[new_Point (- spacing config + real i * spacing config)
                     (- spacing config + real j * spacing config).
             i \<leftarrow> [0..<nat \<lceil>real (innerWidth w) / spacing config\<rceil> + 2],
             j \<leftarrow> [0..<nat \<lceil>real (innerHeight w) / spacing config\<rceil> + 2]]"
  let ?w' = "w\<lparr> canvas := Some \<lparr>width = innerWidth w, height = innerHeight w\<rparr>, points := ?ps \<rparr>"
  have run: "resizeCanvas w = Some ?w'"
    by (rule resizeCanvas_result [OF assms])
  have cnv: "canvas ?w' = Some \<lparr>width = innerWidth w, height = innerHeight w\<rparr>"
    by simp
  have pts: "points ?w' = ?ps"
    by simp
  have len: "length ?ps =
      (nat \<lceil>real (innerWidth w) / spacing config\<rceil> + 2)
      * (nat \<lceil>real (innerHeight w) / spacing config\<rceil> + 2)"
    by (rule grid_length)
  show ?thesis
    by (rule exI [of _ ?w'], unfold pts) (intro conjI run cnv len)
qed

text \<open>
  C9, as the code has it.  Without the canvas element (\<open>ctx\<close> is then undefined as well)
  \<open>initGrid\<close>, \<open>resizeCanvas\<close>, \<open>animate\<close> and the start-up block all return
  normally, leave the state as it was and draw nothing.  Without a 2D context \<open>animate\<close>
  returns normally, leaves the state as it was and draws nothing.  With a canvas but no 2D
  context \<open>initGrid\<close> and \<open>resizeCanvas\<close> are not skipped: they return normally with the
  grid built (and the canvas sized by \<open>resizeCanvas\<close>), and the start-up block sizes the
  canvas, builds the grid and registers its three listeners, drawing nothing.  No call fails.
\<close>

theorem surface_unavailable:
  "(canvas w = None \<longrightarrow>
       initGrid w = Some w \<and> resizeCanvas w = Some w
       \<and> animate clock w = Some (w, []) \<and> startup clock w = Some (w, []))
   \<and> (ctx w = None \<longrightarrow> animate clock w = Some (w, []))
   \<and> (canvas w = Some c \<and> ctx w = None \<longrightarrow>
       (\<exists>w'. initGrid w = Some w'
          \<and> length (points w') =
              (nat \<lceil>real (width c) / spacing config\<rceil> + 2) * (nat \<lceil>real (height c) / spacing config\<rceil> + 2))
       \<and> (\<exists>w'. resizeCanvas w = Some w'
          \<and> canvas w' = Some \<lparr>width = innerWidth w, height = innerHeight w\<rparr>
          \<and> length (points w') =
              (nat \<lceil>real (innerWidth w) / spacing config\<rceil> + 2)
              * (nat \<lceil>real (innerHeight w) / spacing config\<rceil> + 2)
          \<and> startup clock w =
              Some (w'\<lparr> listeners := listeners w @ [OnResize, OnMouseMove, OnMouseLeave] \<rparr>, [])))"
proof -
  have none: "initGrid w = Some w \<and> resizeCanvas w = Some w
       \<and> animate clock w = Some (w, []) \<and> startup clock w = Some (w, [])"
    if "canvas w = None"
    using that by (simp add: initGrid_def resizeCanvas_def animate_def startup_def)
  have frame: "animate clock w = Some (w, [])" if "ctx w = None"
    using that by (rule no_context_no_frame)
  have grid: "\<exists>w'. initGrid w = Some w'
          \<and> length (points w') =
              (nat \<lceil>real (width c) / spacing config\<rceil> + 2) * (nat \<lceil>real (height c) / spacing config\<rceil> + 2)"
    if "canvas w = Some c \<and> ctx w = None"
    using that initGrid_length [of w c] by blast
  have start: "\<exists>w'. resizeCanvas w = Some w'
          \<and> canvas w' = Some \<lparr>width = innerWidth w, height = innerHeight w\<rparr>
          \<and> length (points w') =
              (nat \<lceil>real (innerWidth w) / spacing config\<rceil> + 2)
              * (nat \<lceil>real (innerHeight w) / spacing config\<rceil> + 2)
          \<and> startup clock w =
              Some (w'\<lparr> listeners := listeners w @ [OnResize, OnMouseMove, OnMouseLeave] \<rparr>, [])"
    if h: "canvas w = Some c \<and> ctx w = None"
  proof -
    from h have c: "canvas w = Some c" and g: "ctx w = None"
      by simp_all
    from resizeCanvas_length [OF c] obtain w' where
      r: "resizeCanvas w = Some w'"
        "canvas w' = Some \<lparr>width = innerWidth w, height = innerHeight w\<rparr>"
        "length (points w') =
              (nat \<lceil>real (innerWidth w) / spacing config\<rceil> + 2)
              * (nat \<lceil>real (innerHeight w) / spacing config\<rceil> + 2)"
      by blast
    from r startup_no_context [OF c g r(1), of clock] show ?thesis
      by blast
  qed
  from none frame grid start show ?thesis
    by blast
qed

text \<open>A page without the canvas element, and a page with a canvas but no 2D context.\<close>

theorem surface_unavailable_witness:
  "canvas no_canvas_page = None
   \<and> initGrid no_canvas_page = Some no_canvas_page
   \<and> resizeCanvas no_canvas_page = Some no_canvas_page
   \<and> animate (\<lambda>i. 0) no_canvas_page = Some (no_canvas_page, [])
   \<and> startup (\<lambda>i. 0) no_canvas_page = Some (no_canvas_page, [])
   \<and> canvas no_context_page = Some \<lparr>width = 100, height = 60\<rparr>
   \<and> ctx no_context_page = None
   \<and> animate (\<lambda>i. 0) no_context_page = Some (no_context_page, [])
   \<and> (\<exists>w'. initGrid no_context_page = Some w' \<and> length (points w') = 20)
   \<and> (\<exists>w'. resizeCanvas no_context_page = Some w' \<and> length (points w') = 20
        \<and> startup (\<lambda>i. 0) no_context_page =
            Some (w'\<lparr> listeners := listeners no_context_page @ [OnResize, OnMouseMove, OnMouseLeave] \<rparr>, []))"
proof -
  have a: "canvas no_canvas_page = None"
    by (simp add: no_canvas_page_def load_script_def)
  have c: "canvas no_context_page = Some \<lparr>width = 100, height = 60\<rparr>"
    by (simp add: no_context_page_def load_script_def)
  have g: "ctx no_context_page = None"
    by (simp add: no_context_page_def load_script_def)
  have i: "innerWidth no_context_page = 100" "innerHeight no_context_page = 60"
    by (simp_all add: no_context_page_def load_script_def)
  have n: "(nat \<lceil>real (100::nat) / spacing config\<rceil> + 2) * (nat \<lceil>real (60::nat) / spacing config\<rceil> + 2) = 20"
    by (simp add: config_def)
  have m: "(nat \<lceil>real (width \<lparr>width = 100, height = 60\<rparr>) / spacing config\<rceil> + 2)
         * (nat \<lceil>real (height \<lparr>width = 100, height = 60\<rparr>) / spacing config\<rceil> + 2) = 20"
    by (simp add: config_def)
  from surface_unavailable [of no_canvas_page "\<lambda>i. 0"] a
  have first: "initGrid no_canvas_page = Some no_canvas_page
      \<and> resizeCanvas no_canvas_page = Some no_canvas_page
      \<and> animate (\<lambda>i. 0) no_canvas_page = Some (no_canvas_page, [])
      \<and> startup (\<lambda>i. 0) no_canvas_page = Some (no_canvas_page, [])"
    by blast
  from surface_unavailable [of no_context_page "\<lambda>i. 0" "\<lparr>width = 100, height = 60\<rparr>"] c g
  have second: "animate (\<lambda>i. 0) no_context_page = Some (no_context_page, [])
      \<and> (\<exists>w'. initGrid no_context_page = Some w' \<and> length (points w') = 20)
      \<and> (\<exists>w'. resizeCanvas no_context_page = Some w' \<and> length (points w') = 20
           \<and> startup (\<lambda>i. 0) no_context_page =
               Some (w'\<lparr> listeners := listeners no_context_page @ [OnResize, OnMouseMove, OnMouseLeave] \<rparr>, []))"
    unfolding i n m by blast
  from a c g first second show ?thesis
    by blast
qed

text \<open>
  C9 as claimed fails on a page with a canvas whose 2D context is unavailable: the point
  collection, empty before, has 20 points after \<open>initGrid\<close>, after \<open>resizeCanvas\<close> and
  after the start-up block, which also registers the three listeners.
\<close>

theorem no_context_still_builds:
  "canvas no_context_page = Some \<lparr>width = 100, height = 60\<rparr>
   \<and> ctx no_context_page = None
   \<and> points no_context_page = []
   \<and> listeners no_context_page = []
   \<and> map_option (length \<circ> points) (initGrid no_context_page) = Some 20
   \<and> initGrid no_context_page \<noteq> Some no_context_page
   \<and> map_option (length \<circ> points) (resizeCanvas no_context_page) = Some 20
   \<and> resizeCanvas no_context_page \<noteq> Some no_context_page
   \<and> map_option (length \<circ> points \<circ> fst) (startup (\<lambda>i. 0) no_context_page) = Some 20
   \<and> map_option (listeners \<circ> fst) (startup (\<lambda>i. 0) no_context_page)
       = Some [OnResize, OnMouseMove, OnMouseLeave]
   \<and> startup (\<lambda>i. 0) no_context_page \<noteq> Some (no_context_page, [])"
proof -
  have c: "canvas no_context_page = Some \<lparr>width = 100, height = 60\<rparr>"
    by (simp add: no_context_page_def load_script_def)
  have g: "ctx no_context_page = None"
    by (simp add: no_context_page_def load_script_def)
  have e: "points no_context_page = []" "listeners no_context_page = []"
    by (simp_all add: no_context_page_def load_script_def)
  have i: "innerWidth no_context_page = 100" "innerHeight no_context_page = 60"
    by (simp_all add: no_context_page_def load_script_def)
  have n: "(nat \<lceil>real (100::nat) / spacing config\<rceil> + 2) * (nat \<lceil>real (60::nat) / spacing config\<rceil> + 2) = 20"
    by (simp add: config_def)
  have m: "(nat \<lceil>real (width \<lparr>width = 100, height = 60\<rparr>) / spacing config\<rceil> + 2)
         * (nat \<lceil>real (height \<lparr>width = 100, height = 60\<rparr>) / spacing config\<rceil> + 2) = 20"
    by (simp add: config_def)
  from initGrid_length [OF c] obtain w1 where
    w1: "initGrid no_context_page = Some w1" "length (points w1) = 20"
    unfolding m by blast
  from resizeCanvas_length [OF c] obtain w2 where
    w2: "resizeCanvas no_context_page = Some w2" "length (points w2) = 20"
    unfolding i n by blast
  note w3 = startup_no_context [OF c g w2(1), of "\<lambda>i. 0"]
  have g1: "map_option (length \<circ> points) (initGrid no_context_page) = Some 20"
    by (simp add: w1)
  have g2: "map_option (length \<circ> points) (resizeCanvas no_context_page) = Some 20"
    by (simp add: w2)
  have g3: "map_option (length \<circ> points \<circ> fst) (startup (\<lambda>i. 0) no_context_page) = Some 20"
    by (simp add: w3 w2)
  have g4: "map_option (listeners \<circ> fst) (startup (\<lambda>i. 0) no_context_page)
       = Some [OnResize, OnMouseMove, OnMouseLeave]"
    by (simp add: w3 e)
  have d1: "initGrid no_context_page \<noteq> Some no_context_page"
    using g1 e by auto
  have d2: "resizeCanvas no_context_page \<noteq> Some no_context_page"
    using g2 e by auto
  have d3: "startup (\<lambda>i. 0) no_context_page \<noteq> Some (no_context_page, [])"
    using g4 e by auto
  from c g e g1 g2 g3 g4 d1 d2 d3 show ?thesis
    by blast
qed

subsection \<open>Cursor repulsion\<close>

lemma repel_distance:
  "repel mX mY p =
     (if distance mX mY p < influence config then
        p\<lparr> vx := vx p - cos (atan2 (mY - y p) (mX - x p))
                     * ((influence config - distance mX mY p) / influence config) * force config,
           vy := vy p - sin (atan2 (mY - y p) (mX - x p))
                     * ((influence config - distance mX mY p) / influence config) * force config \<rparr>
      else p)"
  by (simp add: repel_def distance_def Let_def)

lemma repel_far:
  "influence config \<le> distance mX mY p \<Longrightarrow> repel mX mY p = p"
  by (simp add: repel_distance)

lemma distance_nonneg: "0 \<le> distance mX mY p"
  by (simp add: distance_def Let_def)

text \<open>
  C5, as the code has it.  With the cursor exactly on the point the distance is zero, which is
  within the influence radius; \<open>atan2 0 0 = 0\<close>, so the repulsion is the full push
  \<open>f = 1\<close> along the negative horizontal axis: \<open>vx\<close> decreases by \<open>force\<close>
  (0.6) and \<open>vy\<close> is unchanged.
\<close>

theorem repel_at_cursor:
  "distance (x p) (y p) p = 0
   \<and> distance (x p) (y p) p < influence config
   \<and> repel (x p) (y p) p = p\<lparr> vx := vx p - force config \<rparr>
   \<and> repulsion (x p) (y p) p = (- force config, 0)"
proof -
  have d: "distance (x p) (y p) p = 0"
    by (simp add: distance_def)
  have r: "repel (x p) (y p) p = p\<lparr> vx := vx p - force config \<rparr>"
    by (simp add: repel_distance d atan2_def config_def)
  show ?thesis
    by (simp add: d r repulsion_def) (simp add: config_def)
qed

lemma js_div_by_zero: "js_div a 0 = None"
  by (simp add: js_div_def)

lemma repel_checked_defined: "repel_checked mX mY p = Some (repel mX mY p)"
proof -
  have "0 \<le> (mX - x p) * (mX - x p) + (mY - y p) * (mY - y p)"
    by simp
  then have n: "\<not> (mX - x p) * (mX - x p) + (mY - y p) * (mY - y p) < 0"
    by (simp only: not_less)
  have d: "influence config \<noteq> 0"
    by (simp add: config_def)
  show ?thesis
    by (simp add: repel_checked_def repel_def Let_def js_sqrt_def js_div_def n d)
qed

text \<open>
  C6.  With the cursor exactly on the point, no operation of the update is applied where it
  has no finite value: the square root is taken of 0, the only division is by the influence
  radius 150, and \<open>atan2 0 0 = 0\<close>.  The update is defined, and the velocity and position it
  stores are the finite numbers of \<open>update\<close>: the velocity
  \<open>((vx - 0.6 + ox * 0.05) * 0.9, (vy + oy * 0.05) * 0.9)\<close> and the position moved by it.
\<close>

theorem update_at_cursor_defined:
  "js_sqrt ((x p - x p) * (x p - x p) + (y p - y p) * (y p - y p)) = Some 0
   \<and> repel_checked (x p) (y p) p = Some (p\<lparr> vx := vx p - force config \<rparr>)
   \<and> update_checked (x p) (y p) now p = Some (update (x p) (y p) now p)
   \<and> update (x p) (y p) now p = settle 5 now (p\<lparr> vx := vx p - 3 / 5 \<rparr>)"
proof -
  have r: "repel (x p) (y p) p = p\<lparr> vx := vx p - force config \<rparr>"
    by (simp add: repel_distance distance_def atan2_def config_def)
  have f: "force config = 3 / 5"
    by (simp add: config_def)
  show ?thesis
    by (simp add: js_sqrt_def repel_checked_defined update_checked_def update_def update_amp_def r)
       (simp add: f)
qed

text \<open>
  C5 as claimed (a push of zero magnitude, velocity unchanged) fails for a point resting at
  (40, 80) with the cursor on it: the velocity goes from \<open>(0, 0)\<close> to \<open>(-0.6, 0)\<close>.
\<close>

theorem repel_at_cursor_counterexample:
  "distance (x at_cursor) (y at_cursor) at_cursor = 0
   \<and> (vx (repel (x at_cursor) (y at_cursor) at_cursor), vy (repel (x at_cursor) (y at_cursor) at_cursor))
       = (- 3 / 5, 0)
   \<and> (vx at_cursor, vy at_cursor) = (0, 0)
   \<and> magnitude (repulsion (x at_cursor) (y at_cursor) at_cursor) = 3 / 5"
  by (simp add: distance_def repel_def atan2_def config_def at_cursor_def new_Point_def
        repulsion_def magnitude_def)

lemma magnitude_repulsion:
  "magnitude (repulsion mX mY p) =
     (if distance mX mY p < influence config
      then (influence config - distance mX mY p) / influence config * force config
      else 0)"
proof (cases "distance mX mY p < influence config")
  case True
  let ?a = "atan2 (mY - y p) (mX - x p)"
  let ?g = "(influence config - distance mX mY p) / influence config * force config"
  have g: "0 \<le> ?g"
    using True by (simp add: config_def)
  have "magnitude (repulsion mX mY p) = sqrt ((cos ?a * ?g)\<^sup>2 + (sin ?a * ?g)\<^sup>2)"
    using True by (simp add: magnitude_def repulsion_def repel_distance mult.assoc)
  also have "(cos ?a * ?g)\<^sup>2 + (sin ?a * ?g)\<^sup>2 = ((cos ?a)\<^sup>2 + (sin ?a)\<^sup>2) * ?g\<^sup>2"
    by (simp only: power_mult_distrib distrib_right)
  also have "\<dots> = ?g\<^sup>2"
    by simp
  also have "sqrt (?g\<^sup>2) = ?g"
    using g by (simp only: real_sqrt_abs abs_of_nonneg)
  finally show ?thesis
    using True by simp
next
  case False
  then show ?thesis
    by (simp add: magnitude_def repulsion_def repel_distance)
qed

text \<open>
  C2.  For a fixed point and two cursor positions, the nearer one within the influence radius
  adds a velocity of at least the same magnitude as the farther one; a cursor at distance at
  least the influence radius adds exactly \<open>(0, 0)\<close>.
\<close>

theorem repulsion_monotone:
  "(distance mX1 mY1 p \<le> distance mX2 mY2 p \<and> distance mX2 mY2 p < influence config
      \<longrightarrow> magnitude (repulsion mX2 mY2 p) \<le> magnitude (repulsion mX1 mY1 p))
   \<and> (influence config \<le> distance mX mY p \<longrightarrow> repulsion mX mY p = (0, 0))"
proof (intro conjI impI)
  assume h: "distance mX1 mY1 p \<le> distance mX2 mY2 p \<and> distance mX2 mY2 p < influence config"
  then show "magnitude (repulsion mX2 mY2 p) \<le> magnitude (repulsion mX1 mY1 p)"
    by (simp add: magnitude_repulsion) (simp add: config_def)
next
  assume "influence config \<le> distance mX mY p"
  then show "repulsion mX mY p = (0, 0)"
    by (simp add: repulsion_def repel_far)
qed

lemma distance_on_axis:
  "0 \<le> a \<Longrightarrow> distance a 0 origin_point = a"
  by (simp add: distance_def origin_point_def new_Point_def)

theorem repulsion_monotone_witness:
  "distance 50 0 origin_point \<le> distance 100 0 origin_point
   \<and> distance 100 0 origin_point < influence config
   \<and> magnitude (repulsion 100 0 origin_point) \<le> magnitude (repulsion 50 0 origin_point)
   \<and> influence config \<le> distance 150 0 origin_point
   \<and> repulsion 150 0 origin_point = (0, 0)"
proof -
  have a: "distance 50 0 origin_point \<le> distance 100 0 origin_point
      \<and> distance 100 0 origin_point < influence config"
    by (simp add: distance_on_axis config_def)
  have b: "influence config \<le> distance 150 0 origin_point"
    by (simp add: distance_on_axis config_def)
  from repulsion_monotone [of 50 0 origin_point 100 0 150 0] a b show ?thesis
    by blast
qed

lemma far_from_sentinel:
  assumes "- 850 \<le> x p"
  shows "influence config \<le> distance (- 1000) (- 1000) p"
proof -
  have "150 \<le> \<bar>- 1000 - x p\<bar>"
    using assms by simp
  then have "150\<^sup>2 \<le> (- 1000 - x p)\<^sup>2"
    by (metis abs_le_square_iff abs_numeral)
  then have "150\<^sup>2 \<le> (- 1000 - x p) * (- 1000 - x p) + (- 1000 - y p) * (- 1000 - y p)"
    by (simp add: power2_eq_square) (smt (verit) zero_le_square)
  then have "150 \<le> sqrt ((- 1000 - x p) * (- 1000 - x p) + (- 1000 - y p) * (- 1000 - y p))"
    by (rule real_le_rsqrt)
  then show ?thesis
    by (simp add: distance_def config_def Let_def)
qed

lemma repel_sentinel:
  "- 850 \<le> x p \<Longrightarrow> repel (- 1000) (- 1000) p = p"
  by (rule repel_far) (rule far_from_sentinel)

text \<open>
  C8.  In the state the script starts in, and in the state after any \<open>mouseleave\<close>, the
  cursor is at (-1000, -1000); every point that is not outside the canvas extended by the
  50-unit margin is then at distance at least the influence radius from the cursor, so the
  repulsion branch is not taken and adds nothing to the velocity.
\<close>

theorem sentinel_no_repulsion:
  assumes "w = load_script el has2d iw ih dark \<or> w = mouseleave w0"
    and "canvas w = Some c"
    and "\<not> outside c p"
  shows "mouseX w = - 1000 \<and> mouseY w = - 1000
     \<and> influence config \<le> distance (mouseX w) (mouseY w) p
     \<and> repel (mouseX w) (mouseY w) p = p
     \<and> repulsion (mouseX w) (mouseY w) p = (0, 0)"
proof -
  have m: "mouseX w = - 1000 \<and> mouseY w = - 1000"
    using assms(1) by (auto simp: load_script_def mouseleave_def)
  have "- 50 \<le> x p"
    using assms(3) by (simp add: outside_def)
  then have "- 850 \<le> x p"
    by simp
  then have d: "influence config \<le> distance (- 1000) (- 1000) p"
    by (rule far_from_sentinel)
  show ?thesis
    using m d by (simp add: repel_far repulsion_def)
qed

theorem sentinel_no_repulsion_witness:
  "mouseX (mouseleave (mousemove 40 80 small_page)) = - 1000
   \<and> mouseY (mouseleave (mousemove 40 80 small_page)) = - 1000
   \<and> \<not> outside \<lparr>width = 100, height = 60\<rparr> at_cursor
   \<and> repel (mouseX (mouseleave (mousemove 40 80 small_page)))
        (mouseY (mouseleave (mousemove 40 80 small_page))) at_cursor = at_cursor"
proof -
  let ?w = "mouseleave (mousemove 40 80 small_page)"
  have a: "?w = load_script None True 0 0 False \<or> ?w = mouseleave (mousemove 40 80 small_page)"
    by simp
  have c: "canvas ?w = Some \<lparr>width = 100, height = 60\<rparr>"
    by (simp add: mouseleave_def mousemove_def small_page_def load_script_def)
  have o: "\<not> outside \<lparr>width = 100, height = 60\<rparr> at_cursor"
    by (simp add: outside_def at_cursor_def new_Point_def)
  from sentinel_no_repulsion [OF a c o] o show ?thesis
    by blast
qed

subsection \<open>Connecting lines\<close>

lemma segments_start:
  "s \<in> set (segments cs) \<Longrightarrow> MoveTo (fst (fst s)) (snd (fst s)) \<in> set cs"
  by (induction cs rule: segments.induct) auto

lemma connect_moves:
  assumes "MoveTo a b \<in> set (connect c ps p)"
  shows "\<not> outside c p \<and> a = x p \<and> b = y p"
  using assms by (auto simp: connect_def split: if_splits option.splits)

lemma connect_outside: "outside c p \<Longrightarrow> connect c ps p = []"
  by (simp add: connect_def)

lemma draw_no_move: "MoveTo a b \<notin> set (draw col p)"
  by (simp add: draw_def)

lemma animate_Some:
  assumes "canvas w = Some c" and "ctx w \<noteq> None"
  shows "animate clock w =
     Some (w\<lparr> points := map (\<lambda>(i, p). update (mouseX w) (mouseY w) (clock i) p)
                            (enumerate 0 (points w)),
              frameRequests := frameRequests w + 1 \<rparr>,
           [ClearRect 0 0 (real (width c)) (real (height c))]
           @ concat (map (draw (if prefersDark w then ''96, 165, 250'' else ''59, 130, 246''))
               (map (\<lambda>(i, p). update (mouseX w) (mouseY w) (clock i) p) (enumerate 0 (points w))))
           @ [BeginPath]
           @ concat (map (connect c (map (\<lambda>(i, p). update (mouseX w) (mouseY w) (clock i) p)
                                       (enumerate 0 (points w))))
               (map (\<lambda>(i, p). update (mouseX w) (mouseY w) (clock i) p) (enumerate 0 (points w))))
           @ [StrokeStyle (''rgba('' @ (if prefersDark w then ''96, 165, 250'' else ''59, 130, 246'')
                 @ '', 0.12)''), LineWidth 1, Stroke])"
  using assms by (simp add: animate_def Let_def)

lemma animate_out:
  assumes "animate clock w = Some (w', out)" and "canvas w = Some c" and "ctx w \<noteq> None"
  shows "\<exists>col. out = [ClearRect 0 0 (real (width c)) (real (height c))]
           @ concat (map (draw col) (points w'))
           @ [BeginPath]
           @ concat (map (connect c (points w')) (points w'))
           @ [StrokeStyle (''rgba('' @ col @ '', 0.12)''), LineWidth 1, Stroke]"
proof -
  let ?ps = "map (\<lambda>(i, p). update (mouseX w) (mouseY w) (clock i) p) (enumerate 0 (points w))"
  let ?col = "if prefersDark w then ''96, 165, 250'' else ''59, 130, 246''"
  have "Some (w', out) = animate clock w"
    using assms(1) by simp
  also note animate_Some [OF assms(2,3), of clock]
  finally have w': "w' = w\<lparr> points := ?ps, frameRequests := frameRequests w + 1 \<rparr>"
    and out: "out = [ClearRect 0 0 (real (width c)) (real (height c))]
           @ concat (map (draw ?col) ?ps)
           @ [BeginPath]
           @ concat (map (connect c ?ps) ?ps)
           @ [StrokeStyle (''rgba('' @ ?col @ '', 0.12)''), LineWidth 1, Stroke]"
    by (simp_all only: option.inject prod.inject)
  have pts: "points w' = ?ps"
    unfolding w' by simp
  show ?thesis
    unfolding pts by (rule exI [of _ ?col]) (rule out)
qed

lemma animate_moves:
  assumes run: "animate clock w = Some (w', out)"
    and c: "canvas w = Some c"
    and m: "MoveTo a b \<in> set out"
  shows "\<exists>q \<in> set (points w'). \<not> outside c q \<and> a = x q \<and> b = y q"
proof (cases "ctx w = None")
  case True
  with run have "out = []" by (simp add: animate_def)
  with m show ?thesis by simp
next
  case False
  from animate_out [OF run c False] obtain col where
    out: "out = [ClearRect 0 0 (real (width c)) (real (height c))]
           @ concat (map (draw col) (points w'))
           @ [BeginPath]
           @ concat (map (connect c (points w')) (points w'))
           @ [StrokeStyle (''rgba('' @ col @ '', 0.12)''), LineWidth 1, Stroke]"
    by blast
  have "MoveTo a b \<notin> set (concat (map (draw col) (points w')))"
    using draw_no_move by auto
  with m have "MoveTo a b \<in> set (concat (map (connect c (points w')) (points w')))"
    unfolding out by simp
  then obtain q where "q \<in> set (points w')" and "MoveTo a b \<in> set (connect c (points w') q)"
    by auto
  with connect_moves [of a b c "points w'" q] show ?thesis
    by blast
qed

text \<open>
  C4, as the code has it.  In a frame, a point that after its update lies more than the 50-unit
  margin outside the canvas on some axis draws no connecting lines of its own: its pass
  through the second loop emits nothing, and no segment of the frame starts at it.  (A segment
  from a visible point to its right or bottom neighbour may still end at such a point.)
\<close>

theorem outside_point_starts_no_segment:
  assumes "animate clock w = Some (w', out)"
    and "canvas w = Some c"
    and "p \<in> set (points w')"
    and "outside c p"
  shows "connect c (points w') p = [] \<and> (\<forall>s \<in> set (segments out). fst s \<noteq> (x p, y p))"
proof
  show "connect c (points w') p = []"
    using assms(4) by (rule connect_outside)
  show "\<forall>s \<in> set (segments out). fst s \<noteq> (x p, y p)"
  proof
    fix s assume "s \<in> set (segments out)"
    then have "MoveTo (fst (fst s)) (snd (fst s)) \<in> set out"
      by (rule segments_start)
    from animate_moves [OF assms(1,2) this] obtain q where
      q: "\<not> outside c q" "fst (fst s) = x q" "snd (fst s) = y q"
      by blast
    show "fst s \<noteq> (x p, y p)"
    proof
      assume "fst s = (x p, y p)"
      with q have "x q = x p" "y q = y p" by simp_all
      with q(1) assms(4) show False by (simp add: outside_def)
    qed
  qed
qed

lemma update_mesh_left:
  "update (- 1000) (- 1000) 0 \<lparr>originX = 1240, originY = 0, x = 1240, y = 0, vx = 0, vy = 0\<rparr>
     = mesh_left"
  by (simp add: update_def update_amp_def repel_sentinel)
     (simp add: settle_def config_def Let_def mesh_left_def)

lemma update_mesh_right:
  "update (- 1000) (- 1000) 0 \<lparr>originX = 1280, originY = 0, x = 1295, y = 0, vx = 0, vy = 0\<rparr>
     = mesh_right"
  by (simp add: update_def update_amp_def repel_sentinel)
     (simp add: settle_def config_def Let_def mesh_right_def)

lemma mesh_left_inside: "\<not> outside \<lparr>width = 1241, height = 600\<rparr> mesh_left"
proof -
  have "- 1 \<le> cos (62::real)" and "cos (62::real) \<le> 1"
    by simp_all
  then have "\<not> 9 / 40 * cos (62::real) < - 50 \<and> \<not> 9 / 40 * cos (62::real) > 650"
    by linarith
  then show ?thesis
    by (simp add: outside_def mesh_left_def)
qed

lemma mesh_right_outside: "outside \<lparr>width = 1241, height = 600\<rparr> mesh_right"
  by (simp add: outside_def mesh_right_def)

lemma mesh_page_canvas: "canvas mesh_page = Some \<lparr>width = 1241, height = 600\<rparr>"
  by (simp add: mesh_page_def load_script_def)

lemma mesh_page_frame:
  "animate (\<lambda>i. 0) mesh_page =
     Some (mesh_page\<lparr> points := [mesh_left, mesh_right], frameRequests := 1 \<rparr>,
           [ClearRect 0 0 1241 600]
           @ draw ''59, 130, 246'' mesh_left @ draw ''59, 130, 246'' mesh_right
           @ [BeginPath, MoveTo (x mesh_left) (y mesh_left), LineTo (x mesh_right) (y mesh_right),
              StrokeStyle ''rgba(59, 130, 246, 0.12)'', LineWidth 1, Stroke])"
proof -
  have g: "ctx mesh_page \<noteq> None"
    by (simp add: mesh_page_def load_script_def)
  have ps: "map (\<lambda>(i, p). update (mouseX mesh_page) (mouseY mesh_page) ((\<lambda>i. 0) i) p)
              (enumerate 0 (points mesh_page)) = [mesh_left, mesh_right]"
    by (simp add: mesh_page_def load_script_def enumerate_eq_zip upt_rec update_mesh_left update_mesh_right)
  have l: "connect \<lparr>width = 1241, height = 600\<rparr> [mesh_left, mesh_right] mesh_left =
      [MoveTo (x mesh_left) (y mesh_left), LineTo (x mesh_right) (y mesh_right)]"
    using mesh_left_inside by (simp add: connect_def) (simp add: mesh_left_def mesh_right_def config_def)
  have r: "connect \<lparr>width = 1241, height = 600\<rparr> [mesh_left, mesh_right] mesh_right = []"
    using mesh_right_outside by (rule connect_outside)
  have d: "prefersDark mesh_page = False" "frameRequests mesh_page = 0"
    by (simp_all add: mesh_page_def load_script_def)
  show ?thesis
    unfolding animate_Some [OF mesh_page_canvas g] ps
    by (simp add: l r d)
qed

text \<open>
  C4 as claimed fails: in the frame of \<open>mesh_page\<close> the right point ends at
  \<open>x = 1294.325 > 1241 + 50\<close>, outside the margin, and the one segment of the frame, drawn
  from its visible left neighbour, ends at it.
\<close>

theorem outside_point_is_endpoint:
  "map_option (points \<circ> fst) (animate (\<lambda>i. 0) mesh_page) = Some [mesh_left, mesh_right]
   \<and> x mesh_right > real (width \<lparr>width = 1241, height = 600\<rparr>) + 50
   \<and> map_option (segments \<circ> snd) (animate (\<lambda>i. 0) mesh_page)
       = Some [((x mesh_left, y mesh_left), (x mesh_right, y mesh_right))]"
  by (simp add: mesh_page_frame draw_def) (simp add: mesh_right_def)

theorem outside_point_starts_no_segment_witness:
  "outside \<lparr>width = 1241, height = 600\<rparr> mesh_right
   \<and> connect \<lparr>width = 1241, height = 600\<rparr> [mesh_left, mesh_right] mesh_right = []
   \<and> (x mesh_right, y mesh_right)
       \<notin> set (map fst (segments ([ClearRect 0 0 1241 600]
           @ draw ''59, 130, 246'' mesh_left @ draw ''59, 130, 246'' mesh_right
           @ [BeginPath, MoveTo (x mesh_left) (y mesh_left), LineTo (x mesh_right) (y mesh_right),
              StrokeStyle ''rgba(59, 130, 246, 0.12)'', LineWidth 1, Stroke])))"
proof -
  have p: "mesh_right \<in> set (points (mesh_page\<lparr> points := [mesh_left, mesh_right], frameRequests := 1 \<rparr>))"
    by simp
  from outside_point_starts_no_segment [OF mesh_page_frame mesh_page_canvas p mesh_right_outside]
    mesh_right_outside
  show ?thesis by auto
qed

subsection \<open>Return to the anchor\<close>

lemma update_idle:
  "- 850 \<le> x p \<Longrightarrow> update_amp amp (- 1000) (- 1000) now p = settle amp now p"
  by (simp add: update_amp_def repel_sentinel)

lemma settle_still:
  "settle 0 now p =
     p\<lparr> vx := (vx p + (originX p - x p) * (1 / 20)) * (9 / 10),
        vy := (vy p + (originY p - y p) * (1 / 20)) * (9 / 10),
        x := x p + (vx p + (originX p - x p) * (1 / 20)) * (9 / 10),
        y := y p + (vy p + (originY p - y p) * (1 / 20)) * (9 / 10) \<rparr>"
  by (simp add: settle_def config_def Let_def)

lemma settle_anchor:
  "originX (settle amp now p) = originX p \<and> originY (settle amp now p) = originY p"
  by (simp add: settle_def Let_def)

lemma energy_axis_step:
  fixes a b v :: real
  shows "9 * ((a + (v + (b - a) * (1 / 20)) * (9 / 10)) - b)\<^sup>2
       + 11 * (((a + (v + (b - a) * (1 / 20)) * (9 / 10)) - b) * ((v + (b - a) * (1 / 20)) * (9 / 10)))
       + 180 * ((v + (b - a) * (1 / 20)) * (9 / 10))\<^sup>2
       = 9 / 10 * (9 * (a - b)\<^sup>2 + 11 * ((a - b) * v) + 180 * v\<^sup>2)"
  by algebra

lemma energy_settle: "energy (settle 0 now p) = 9 / 10 * energy p"
proof -
  have "energy (settle 0 now p) =
      (9 * ((x p + (vx p + (originX p - x p) * (1 / 20)) * (9 / 10)) - originX p)\<^sup>2
       + 11 * (((x p + (vx p + (originX p - x p) * (1 / 20)) * (9 / 10)) - originX p)
               * ((vx p + (originX p - x p) * (1 / 20)) * (9 / 10)))
       + 180 * ((vx p + (originX p - x p) * (1 / 20)) * (9 / 10))\<^sup>2)
    + (9 * ((y p + (vy p + (originY p - y p) * (1 / 20)) * (9 / 10)) - originY p)\<^sup>2
       + 11 * (((y p + (vy p + (originY p - y p) * (1 / 20)) * (9 / 10)) - originY p)
               * ((vy p + (originY p - y p) * (1 / 20)) * (9 / 10)))
       + 180 * ((vy p + (originY p - y p) * (1 / 20)) * (9 / 10))\<^sup>2)"
    unfolding settle_still energy_def by simp
  also have "\<dots> = 9 / 10 * (9 * (x p - originX p)\<^sup>2 + 11 * ((x p - originX p) * vx p) + 180 * (vx p)\<^sup>2)
      + 9 / 10 * (9 * (y p - originY p)\<^sup>2 + 11 * ((y p - originY p) * vy p) + 180 * (vy p)\<^sup>2)"
    by (simp only: energy_axis_step)
  also have "\<dots> = 9 / 10 * energy p"
    unfolding energy_def by algebra
  finally show ?thesis .
qed

lemma energy_axis:
  fixes e v :: real
  shows "6359 / 720 * e\<^sup>2 \<le> 9 * e\<^sup>2 + 11 * (e * v) + 180 * v\<^sup>2"
proof -
  have "0 \<le> 180 * (v + 11 / 360 * e)\<^sup>2"
    by simp
  also have "180 * (v + 11 / 360 * e)\<^sup>2 = 9 * e\<^sup>2 + 11 * (e * v) + 180 * v\<^sup>2 - 6359 / 720 * e\<^sup>2"
    by (simp add: power2_eq_square algebra_simps)
  finally show ?thesis
    by simp
qed

lemma energy_bounds:
  "6359 / 720 * (x p - originX p)\<^sup>2 \<le> energy p"
  "6359 / 720 * (dist_anchor p)\<^sup>2 \<le> energy p"
proof -
  have a: "6359 / 720 * (x p - originX p)\<^sup>2
      \<le> 9 * (x p - originX p)\<^sup>2 + 11 * ((x p - originX p) * vx p) + 180 * (vx p)\<^sup>2"
    by (rule energy_axis)
  have b: "6359 / 720 * (y p - originY p)\<^sup>2
      \<le> 9 * (y p - originY p)\<^sup>2 + 11 * ((y p - originY p) * vy p) + 180 * (vy p)\<^sup>2"
    by (rule energy_axis)
  have c: "0 \<le> 6359 / 720 * (y p - originY p)\<^sup>2"
    by simp
  have e: "energy p =
      (9 * (x p - originX p)\<^sup>2 + 11 * ((x p - originX p) * vx p) + 180 * (vx p)\<^sup>2)
      + (9 * (y p - originY p)\<^sup>2 + 11 * ((y p - originY p) * vy p) + 180 * (vy p)\<^sup>2)"
    unfolding energy_def by simp
  from a b c show "6359 / 720 * (x p - originX p)\<^sup>2 \<le> energy p"
    unfolding e by linarith
  have d: "(dist_anchor p)\<^sup>2 = (x p - originX p)\<^sup>2 + (y p - originY p)\<^sup>2"
    by (simp add: dist_anchor_def)
  have "6359 / 720 * ((x p - originX p)\<^sup>2 + (y p - originY p)\<^sup>2)
      = 6359 / 720 * (x p - originX p)\<^sup>2 + 6359 / 720 * (y p - originY p)\<^sup>2"
    by (rule distrib_left)
  with a b show "6359 / 720 * (dist_anchor p)\<^sup>2 \<le> energy p"
    unfolding e d by linarith
qed

lemma energy_at_rest:
  "vx p = 0 \<Longrightarrow> vy p = 0 \<Longrightarrow> energy p = 9 * (dist_anchor p)\<^sup>2"
  by (simp add: energy_def dist_anchor_def)

lemma low_energy_in_reach:
  assumes "energy p \<le> 5760000" and "- 40 \<le> originX p"
  shows "- 850 \<le> x p"
proof -
  have "6359 / 720 * (x p - originX p)\<^sup>2 \<le> 5760000"
    using energy_bounds(1) [of p] assms(1) by linarith
  then have "(x p - originX p)\<^sup>2 \<le> 810\<^sup>2"
    by simp
  then have "\<bar>x p - originX p\<bar> \<le> 810"
    by (metis abs_le_square_iff abs_numeral)
  with assms(2) show ?thesis
    by linarith
qed

lemma energy_run:
  assumes "energy p \<le> 5760000" and "- 40 \<le> originX p"
  shows "energy (run_amp 0 (- 1000) (- 1000) ts p) = (9 / 10) ^ length ts * energy p"
  using assms
proof (induction ts arbitrary: p)
  case Nil
  then show ?case by simp
next
  case (Cons t ts)
  have step: "update_amp 0 (- 1000) (- 1000) t p = settle 0 t p"
    using Cons.prems by (simp add: update_idle low_energy_in_reach)
  have "0 \<le> energy p"
    using energy_bounds(1) [of p] by (smt (verit) mult_nonneg_nonneg zero_le_power2 divide_nonneg_nonneg)
  then have e: "energy (settle 0 t p) \<le> 5760000"
    using Cons.prems(1) by (simp add: energy_settle)
  have o: "- 40 \<le> originX (settle 0 t p)"
    using Cons.prems(2) by (simp add: settle_anchor)
  show ?case
    by (simp add: step Cons.IH [OF e o] energy_settle)
qed

text \<open>
  C3, as the code has it.  With the cursor at (-1000, -1000) and the drift amplitude set to 0,
  a point that starts at rest at most 800 from its anchor (the anchor, as in every grid, at
  \<open>originX \<ge> - 40\<close>) is never repelled, and after \<open>n\<close> updates the square of its distance
  to the anchor is at most \<open>1.02 * 0.9 ^ n\<close> times the square of the initial distance: the
  distance tends to zero geometrically and ends below every epsilon.  It does not decrease
  at every step.
\<close>

theorem idle_convergence:
  assumes "vx p = 0" and "vy p = 0" and "- 40 \<le> originX p" and "dist_anchor p \<le> 800"
  shows "(dist_anchor (run_amp 0 (- 1000) (- 1000) ts p))\<^sup>2
           \<le> 51 / 50 * (9 / 10) ^ length ts * (dist_anchor p)\<^sup>2"
proof -
  let ?q = "run_amp 0 (- 1000) (- 1000) ts p"
  have d0: "0 \<le> dist_anchor p"
    by (simp add: dist_anchor_def)
  have "(dist_anchor p)\<^sup>2 \<le> 800\<^sup>2"
    using assms(4) d0 by (rule power_mono)
  then have e0: "energy p \<le> 5760000"
    by (simp add: energy_at_rest assms(1,2))
  have "6359 / 720 * (dist_anchor ?q)\<^sup>2 \<le> energy ?q"
    by (rule energy_bounds(2))
  also have "energy ?q = (9 / 10) ^ length ts * (9 * (dist_anchor p)\<^sup>2)"
    by (simp add: energy_run [OF e0 assms(3)] energy_at_rest assms(1,2))
  finally have "(dist_anchor ?q)\<^sup>2 \<le> 6480 / 6359 * ((9 / 10) ^ length ts * (dist_anchor p)\<^sup>2)"
    by (simp add: field_simps)
  also have "\<dots> \<le> 51 / 50 * ((9 / 10) ^ length ts * (dist_anchor p)\<^sup>2)"
    by (rule mult_right_mono) simp_all
  finally show ?thesis
    by (simp add: mult.assoc)
qed

lemma dist_anchor_level:
  "y p = originY p \<Longrightarrow> dist_anchor p = \<bar>x p - originX p\<bar>"
  by (simp add: dist_anchor_def)

lemma run_amp_append:
  "run_amp amp mX mY (ts @ us) p = run_amp amp mX mY us (run_amp amp mX mY ts p)"
  by (induction ts arbitrary: p) simp_all

lemma idle_frames_Suc:
  "idle_frames (Suc n) = update_amp 0 (- 1000) (- 1000) 0 (idle_frames n)"
proof -
  have "replicate (Suc n) (0::int) = replicate n 0 @ [0]"
    by (simp add: replicate_append_same)
  then show ?thesis
    by (simp only: idle_frames_def run_amp_append run_amp.simps)
qed

lemma idle_frames_0: "idle_frames 0 = overshoot_point"
  by (simp add: idle_frames_def)

lemma idle_frames_1:
  "idle_frames (Suc 0) =
     \<lparr>originX = 0, originY = 0, x = 764, y = 0, vx = - 36, vy = 0\<rparr>"
  using idle_frames_Suc [of 0]
  by (simp add: idle_frames_0 overshoot_point_def update_idle settle_still)

lemma idle_frames_2:
  "idle_frames 2 =
     \<lparr>originX = 0, originY = 0, x = 34861 / 50, y = 0, vx = - (3339 / 50), vy = 0\<rparr>"
  using idle_frames_Suc [of "Suc 0"]
  by (simp add: idle_frames_1 update_idle settle_still numeral_2_eq_2)

lemma idle_frames_3:
  "idle_frames 3 =
     \<lparr>originX = 0, originY = 0, x = 6057431 / 10000, y = 0, vx = - (914769 / 10000), vy = 0\<rparr>"
  using idle_frames_Suc [of 2]
  by (simp add: idle_frames_2 update_idle settle_still)

lemma idle_frames_4:
  "idle_frames 4 =
     \<lparr>originX = 0, originY = 0, x = 992310901 / 2000000, y = 0, vx = - (219175299 / 2000000), vy = 0\<rparr>"
  using idle_frames_Suc [of 3]
  by (simp add: idle_frames_3 update_idle settle_still)

lemma idle_frames_5:
  "idle_frames 5 =
     \<lparr>originX = 0, originY = 0, x = 150079828271 / 400000000, y = 0, vx = - (48382351929 / 400000000), vy = 0\<rparr>"
  using idle_frames_Suc [of 4]
  by (simp add: idle_frames_4 update_idle settle_still)

lemma idle_frames_6:
  "idle_frames 6 =
     \<lparr>originX = 0, originY = 0, x = 19956423852541 / 80000000000, y = 0, vx = - (10059541801659 / 80000000000), vy = 0\<rparr>"
  using idle_frames_Suc [of 5]
  by (simp add: idle_frames_5 update_idle settle_still)

lemma idle_frames_7:
  "idle_frames 7 =
     \<lparr>originX = 0, originY = 0, x = 2000959431536711 / 16000000000000, y = 0, vx = - (1990325338971489 / 16000000000000), vy = 0\<rparr>"
  using idle_frames_Suc [of 6]
  by (simp add: idle_frames_6 update_idle settle_still)

lemma idle_frames_8:
  "idle_frames 8 =
     \<lparr>originX = 0, originY = 0, x = 23924690408643781 / 3200000000000000, y = 0, vx = - (376267195898698419 / 3200000000000000), vy = 0\<rparr>"
  using idle_frames_Suc [of 7]
  by (simp add: idle_frames_7 update_idle settle_still)

lemma idle_frames_9:
  "idle_frames 9 =
     \<lparr>originX = 0, originY = 0, x = - (63158479393714753249 / 640000000000000000), y = 0, vx = - (67943417475443509449 / 640000000000000000), vy = 0\<rparr>"
  using idle_frames_Suc [of 8]
  by (simp add: idle_frames_8 update_idle settle_still)

text \<open>
  C3 as claimed fails: the spring is underdamped.  The point starting at rest 800 from its
  anchor stays more than 7 away for eight updates, is less than 8 away after the eighth, and
  more than 98 away, on the other side, after the ninth.
\<close>

theorem idle_distance_overshoots:
  "vx overshoot_point = 0 \<and> vy overshoot_point = 0
   \<and> 7 < dist_anchor (idle_frames 0)
   \<and> 7 < dist_anchor (idle_frames 1)
   \<and> 7 < dist_anchor (idle_frames 2)
   \<and> 7 < dist_anchor (idle_frames 3)
   \<and> 7 < dist_anchor (idle_frames 4)
   \<and> 7 < dist_anchor (idle_frames 5)
   \<and> 7 < dist_anchor (idle_frames 6)
   \<and> 7 < dist_anchor (idle_frames 7)
   \<and> 7 < dist_anchor (idle_frames 8)
   \<and> dist_anchor (idle_frames 8) < 8
   \<and> 98 < dist_anchor (idle_frames 9)
   \<and> dist_anchor (idle_frames 8) < dist_anchor (idle_frames 9)"
  by (simp add: overshoot_point_def dist_anchor_level idle_frames_0 idle_frames_1 idle_frames_2 idle_frames_3 idle_frames_4 idle_frames_5 idle_frames_6 idle_frames_7 idle_frames_8 idle_frames_9)

theorem idle_convergence_witness:
  "vx overshoot_point = 0 \<and> vy overshoot_point = 0 \<and> - 40 \<le> originX overshoot_point
   \<and> dist_anchor overshoot_point = 800
   \<and> (dist_anchor (run_amp 0 (- 1000) (- 1000) [0, 16, 33] overshoot_point))\<^sup>2
        \<le> 51 / 50 * (9 / 10) ^ length [0::int, 16, 33] * (dist_anchor overshoot_point)\<^sup>2"
proof -
  have d: "dist_anchor overshoot_point = 800"
    by (simp add: overshoot_point_def dist_anchor_level)
  have a: "vx overshoot_point = 0" "vy overshoot_point = 0" "- 40 \<le> originX overshoot_point"
    by (simp_all add: overshoot_point_def)
  have b: "dist_anchor overshoot_point \<le> 800"
    by (simp add: d)
  from idle_convergence [OF a b, of "[0, 16, 33]"] a d show ?thesis
    by blast
qed

subsection \<open>Contact form validation\<close>

lemma email_regex_split:
  "email_regex_test e \<longleftrightarrow>
     (\<exists>a b c. e = a @ [0x40] @ b @ [0x2E] @ c \<and> plain a \<and> plain b \<and> plain c)"
proof
  assume "email_regex_test e"
  then obtain i j where ij: "i < length e" "j < length e" "i < j" "e ! i = 0x40" "e ! j = 0x2E"
      "plain (take i e)" "plain (take (j - i - 1) (drop (i + 1) e))" "plain (drop (j + 1) e)"
    by (auto simp: email_regex_test_def list_ex_iff)
  have "e = take i e @ [e ! i] @ drop (i + 1) e"
    using ij(1) by (simp add: id_take_nth_drop)
  moreover have "drop (i + 1) e = take (j - i - 1) (drop (i + 1) e) @ [e ! j] @ drop (j + 1) e"
  proof -
    have "j - i - 1 < length (drop (i + 1) e)"
      using ij(1-3) by simp
    from id_take_nth_drop [OF this] show ?thesis
      using ij(1-3) by (simp add: add.commute)
  qed
  ultimately have "e = take i e @ [0x40] @ take (j - i - 1) (drop (i + 1) e) @ [0x2E] @ drop (j + 1) e"
    using ij(4,5) by simp
  with ij(6-8) show "\<exists>a b c. e = a @ [0x40] @ b @ [0x2E] @ c \<and> plain a \<and> plain b \<and> plain c"
    by blast
next
  assume "\<exists>a b c. e = a @ [0x40] @ b @ [0x2E] @ c \<and> plain a \<and> plain b \<and> plain c"
  then obtain a b c where e: "e = a @ [0x40] @ b @ [0x2E] @ c" and p: "plain a" "plain b" "plain c"
    by blast
  let ?i = "length a" and ?j = "length a + 1 + length b"
  have "?i < length e" "?j < length e" "?i < ?j" "e ! ?i = 0x40"
    by (simp_all add: e)
  moreover have "e ! ?j = 0x2E"
    by (simp add: e nth_append)
  moreover have "take ?i e = a" "take (?j - ?i - 1) (drop (?i + 1) e) = b" "drop (?j + 1) e = c"
    by (simp_all add: e)
  ultimately show "email_regex_test e"
    unfolding email_regex_test_def list_ex_iff using p
    by (metis (no_types, lifting) atLeastLessThan_iff set_upt zero_le)
qed

lemma email_regex_needs_dot: "email_regex_test e \<Longrightarrow> 0x2E \<in> set e"
  by (auto simp: email_regex_split)

text \<open>
  C10.  A submit calls \<open>emailjs.send\<close> only if the trimmed name, email and message are all
  non-empty and the trimmed email matches the pattern; when one of these checks fails the
  handler does nothing to the outside, sets one of the two error texts in the error colour
  and leaves the controls as they were; the form is reset only when the send succeeded, and
  after that send.
\<close>

theorem submit_validates:
  "((\<exists>m. Send m \<in> set (snd (submit send_ok s)))
      \<longrightarrow> field_value s ''name'' \<noteq> [] \<and> field_value s ''email'' \<noteq> []
          \<and> field_value s ''message'' \<noteq> [] \<and> email_regex_test (field_value s ''email''))
   \<and> (\<not> (field_value s ''name'' \<noteq> [] \<and> field_value s ''email'' \<noteq> []
          \<and> field_value s ''message'' \<noteq> [] \<and> email_regex_test (field_value s ''email''))
      \<longrightarrow> snd (submit send_ok s) = []
          \<and> statusText (fst (submit send_ok s)) \<in> {FillAllFields, EnterValidEmail}
          \<and> statusColor (fst (submit send_ok s)) = ''#ef4444''
          \<and> controls (fst (submit send_ok s)) = controls s)
   \<and> (Reset \<in> set (snd (submit send_ok s))
      \<longrightarrow> send_ok \<and> (\<exists>m. snd (submit send_ok s) = [Send m, Reset]))"
  by (simp add: submit_def Let_def)

lemma filled_form_values:
  "field_value filled_form ''name'' = [0x41, 0x6E, 0x6E]"
  "field_value filled_form ''email'' = [0x61, 0x40, 0x62, 0x2E, 0x63]"
  "field_value filled_form ''message'' = [0x68, 0x69]"
  by (simp_all add: field_value_def filled_form_def trim_def is_space_def)

lemma undotted_form_values:
  "field_value undotted_form ''name'' = [0x41, 0x6E, 0x6E]"
  "field_value undotted_form ''email'' = [0x61, 0x40, 0x62]"
  "field_value undotted_form ''message'' = [0x68, 0x69]"
  by (simp_all add: field_value_def undotted_form_def filled_form_def trim_def is_space_def)

lemma filled_form_email: "email_regex_test [0x61, 0x40, 0x62, 0x2E, 0x63]"
proof -
  have "[0x61, 0x40, 0x62, 0x2E, 0x63] = [0x61] @ [0x40] @ [0x62] @ [0x2E] @ [0x63 :: 16 word]"
    by simp
  moreover have "plain [0x61]" "plain [0x62]" "plain [0x63]"
    by (simp_all add: plain_def is_space_def)
  ultimately show ?thesis
    unfolding email_regex_split by blast
qed

lemma undotted_form_email: "\<not> email_regex_test [0x61, 0x40, 0x62]"
  using email_regex_needs_dot [of "[0x61, 0x40, 0x62]"] by auto

theorem submit_validates_witness:
  "snd (submit True filled_form)
     = [Send \<lparr> from_name = [0x41, 0x6E, 0x6E], from_email = [0x61, 0x40, 0x62, 0x2E, 0x63],
               message = [0x68, 0x69], to_name = [0x53, 0x75, 0x6A, 0x61, 0x6C],
               reply_to = [0x61, 0x40, 0x62, 0x2E, 0x63] \<rparr>, Reset]
   \<and> email_regex_test (field_value filled_form ''email'')
   \<and> \<not> email_regex_test (field_value undotted_form ''email'')
   \<and> snd (submit True undotted_form) = []
   \<and> statusText (fst (submit True undotted_form)) \<in> {FillAllFields, EnterValidEmail}
   \<and> controls (fst (submit True undotted_form)) = controls undotted_form"
proof -
  have a: "snd (submit True filled_form)
     = [Send \<lparr> from_name = [0x41, 0x6E, 0x6E], from_email = [0x61, 0x40, 0x62, 0x2E, 0x63],
               message = [0x68, 0x69], to_name = [0x53, 0x75, 0x6A, 0x61, 0x6C],
               reply_to = [0x61, 0x40, 0x62, 0x2E, 0x63] \<rparr>, Reset]"
    by (simp add: submit_def Let_def filled_form_values filled_form_email)
  then have "\<exists>m. Send m \<in> set (snd (submit True filled_form))"
    by simp
  with submit_validates [of True filled_form]
  have b: "email_regex_test (field_value filled_form ''email'')"
    by blast
  have c: "\<not> email_regex_test (field_value undotted_form ''email'')"
    by (simp add: undotted_form_values undotted_form_email)
  with submit_validates [of True undotted_form]
  have d: "snd (submit True undotted_form) = []
      \<and> statusText (fst (submit True undotted_form)) \<in> {FillAllFields, EnterValidEmail}
      \<and> controls (fst (submit True undotted_form)) = controls undotted_form"
    by blast
  from a b c d show ?thesis
    by blast
qed

end
